theory Spec2Isabelle
  imports Complex_Main "HOL-Library.Sublist"
begin

section \<open>Go errors: sentinels, wrapping, \<open>errors.Is\<close>\<close>

text \<open>
  Package \<open>appkey\<close> (client.go, lines 24-37) declares three package-level error values with
  \<open>errors.New\<close>; the token library \<open>github.com/golang-jwt/jwt/v5\<close> declares its own
  (errors.go). Such a value is compared by identity, so each one is a constructor of
  \<open>sentinel\<close>; no other error value can be equal to it.
\<close>

datatype sentinel =
    ErrLoginUnauthorized
  | ErrMasterCredentials
  | ErrSessionExpired
  | ErrTokenMalformed
  | ErrTokenUnverifiable
  | ErrInvalidType

text \<open>
  An error value is a sentinel, a leaf that wraps nothing (what \<open>fmt.Errorf\<close> returns for
  a format without \<open>%w\<close>, and the errors of \<open>encoding/base64\<close> and \<open>encoding/json\<close>,
  which have neither an \<open>Unwrap\<close> nor an \<open>Is\<close> method), or what \<open>fmt.Errorf\<close> returns
  for one \<open>%w\<close> (\<open>*fmt.wrapError\<close>) and for several (\<open>*fmt.wrapErrors\<close>).
\<close>

datatype error =
    Sentinel sentinel
  | leafError string
  | wrapError string error
  | wrapErrors string "error list"

fun sentinel_text :: "sentinel \<Rightarrow> string" where
  "sentinel_text ErrLoginUnauthorized = ''unauthorized''"
| "sentinel_text ErrMasterCredentials = ''master credentials used''"
| "sentinel_text ErrSessionExpired = ''session expired''"
| "sentinel_text ErrTokenMalformed = ''token is malformed''"
| "sentinel_text ErrTokenUnverifiable = ''token is unverifiable''"
| "sentinel_text ErrInvalidType = ''invalid type for claim''"

text \<open>The method \<open>Error()\<close>: the text of an error value.\<close>

fun Error :: "error \<Rightarrow> string" where
  "Error (Sentinel s) = sentinel_text s"
| "Error (leafError msg) = msg"
| "Error (wrapError msg e) = msg"
| "Error (wrapErrors msg es) = msg"

text \<open>
  \<open>errors.Is(err, target)\<close> for a sentinel target: \<open>err\<close> is the target, or something it
  wraps (the tree under \<open>Unwrap\<close>) is.
\<close>

fun Is :: "error \<Rightarrow> sentinel \<Rightarrow> bool" and Is_any :: "error list \<Rightarrow> sentinel \<Rightarrow> bool" where
  "Is (Sentinel s) target = (s = target)"
| "Is (leafError msg) target = False"
| "Is (wrapError msg e) target = Is e target"
| "Is (wrapErrors msg es) target = Is_any es target"
| "Is_any [] target = False"
| "Is_any (e # es) target = (Is e target \<or> Is_any es target)"

text \<open>
  \<open>fmt.Errorf\<close>: the format, with its arguments in place, as a list of pieces. The text
  is the concatenation of the pieces; the result wraps the operands of \<open>%w\<close>, in order.
\<close>

datatype piece =
    Lit string    \<comment> \<open>literal text of the format\<close>
  | W error       \<comment> \<open>\<open>%w\<close> with an error operand\<close>
  | V string      \<comment> \<open>\<open>%v\<close>, \<open>%s\<close> or \<open>%T\<close> with the operand's rendering\<close>

fun render :: "piece \<Rightarrow> string" where
  "render (Lit s) = s"
| "render (W e) = Error e"
| "render (V s) = s"

fun wrapped :: "piece list \<Rightarrow> error list" where
  "wrapped [] = []"
| "wrapped (Lit s # ps) = wrapped ps"
| "wrapped (W e # ps) = e # wrapped ps"
| "wrapped (V s # ps) = wrapped ps"

definition Errorf :: "piece list \<Rightarrow> error" where
  "Errorf ps =
     (let s = concat (map render ps) in
      case wrapped ps of
        [] \<Rightarrow> leafError s
      | [e] \<Rightarrow> wrapError s e
      | e # e' # es \<Rightarrow> wrapErrors s (e # e' # es))"

text \<open>
  \<open>newError\<close> of the token library (errors.go): \<open>"%w: %s"\<close> with the sentinel and the
  message (only \<open>"%w"\<close> for an empty message), then \<open>": %w"\<close> for every further error.
\<close>

definition newError :: "string \<Rightarrow> error \<Rightarrow> error list \<Rightarrow> error" where
  "newError message err more =
     Errorf ((if message \<noteq> [] then [W err, Lit '': '', V message] else [W err])
             @ concat (map (\<lambda>e. [Lit '': '', W e]) more))"

section \<open>Time\<close>

text \<open>
  An instant (\<open>time.Time\<close>, wall clock) as its nanoseconds since the Unix epoch, and a
  \<open>time.Duration\<close> as its nanoseconds. \<open>t.Sub(u)\<close> is the difference, saturated at the
  least and the greatest \<open>int64\<close>; \<open>time.Until(t)\<close> is \<open>t.Sub(time.Now())\<close>, with the
  reading of the clock as the first argument here.
\<close>

type_synonym Time = int
type_synonym Duration = int

definition minDuration :: Duration where
  "minDuration = - (2 ^ 63)"

definition maxDuration :: Duration where
  "maxDuration = 2 ^ 63 - 1"

definition Sub :: "Time \<Rightarrow> Time \<Rightarrow> Duration" where
  "Sub t u =
     (let d = t - u in
      if d < minDuration then minDuration
      else if maxDuration < d then maxDuration
      else d)"

definition Until :: "Time \<Rightarrow> Time \<Rightarrow> Duration" where
  "Until now t = Sub t now"

text \<open>\<open>jwt.NumericDate\<close> is a struct that embeds a \<open>time.Time\<close>.\<close>

datatype NumericDate = NumericDate (Time: Time)

section \<open>Decoded tokens\<close>

text \<open>
  What \<open>encoding/json\<close> stores in an \<open>interface{}\<close>: \<open>nil\<close>, a \<open>bool\<close>, a \<open>float64\<close>
  (its value, a real number: JSON has no infinity and no NaN), a \<open>string\<close>, a slice or a
  map.
\<close>

datatype json =
    JNil
  | JBool bool
  | JFloat64 real
  | JString string
  | JArray "json list"
  | JObject "(string \<times> json) list"

text \<open>
  \<open>m[key]\<close> on a \<open>map[string]interface{}\<close>: a missing key reads as the \<open>nil\<close> interface
  value.
\<close>

definition index :: "(string \<rightharpoonup> json) \<Rightarrow> string \<Rightarrow> json" where
  "index m key = (case m key of None \<Rightarrow> JNil | Some v \<Rightarrow> v)"

text \<open>
  The interface \<open>jwt.Claims\<close> with two of its implementations: \<open>jwt.MapClaims\<close>, a
  \<open>map[string]interface{}\<close>, and \<open>jwt.RegisteredClaims\<close>, of which only the field
  \<open>ExpiresAt\<close> is kept.
\<close>

datatype Claims =
    MapClaims "string \<rightharpoonup> json"
  | RegisteredClaims "NumericDate option"

record Token =
  Raw :: string
  Method :: string
  Header :: "string \<rightharpoonup> json"
  Claims :: Claims

section \<open>The collaborators of the token parser\<close>

text \<open>
  The checker depends on a decoder it does not implement. What the decoder computes from
  bytes, and how an instant is printed, are parameters of the model:
  \<^item> \<open>DecodeSegment\<close>: \<open>base64.RawURLEncoding.DecodeString\<close>, the bytes or the text of
    the error;
  \<^item> \<open>Unmarshal\<close>: \<open>json.Unmarshal(data, &m)\<close> for the header, a map \<open>m\<close> from strings
    to \<open>interface{}\<close>: the text of the error, \<open>None\<close> for the JSON text \<open>null\<close>, or
    the entries of the JSON object;
  \<^item> \<open>Decode\<close>: the same for the claims, which the releases of the library read with a
    \<open>json.Decoder\<close> or with \<open>json.Unmarshal\<close>;
  \<^item> \<open>GetSigningMethod\<close>: whether a signing method is registered under the name;
  \<^item> \<open>newNumericDateFromSeconds\<close>: the date of a \<open>float64\<close> number of seconds;
  \<^item> \<open>Time_String\<close>: \<open>Time.String()\<close>, which \<open>%v\<close> prints.
\<close>

record extern =
  DecodeSegment :: "string \<Rightarrow> string + string"
  Unmarshal :: "string \<Rightarrow> string + (string \<rightharpoonup> json) option"
  Decode :: "string \<Rightarrow> string + (string \<rightharpoonup> json) option"
  GetSigningMethod :: "string \<Rightarrow> bool"
  newNumericDateFromSeconds :: "real \<Rightarrow> NumericDate"
  Time_String :: "Time \<Rightarrow> string"

section \<open>The token library, as far as \<open>Check\<close> calls it\<close>

text \<open>\<open>strings.Split(s, sep)\<close> for a separator of one byte.\<close>

fun Split :: "string \<Rightarrow> char \<Rightarrow> string list" where
  "Split [] sep = [[]]"
| "Split (c # cs) sep =
     (if c = sep then [] # Split cs sep
      else (case Split cs sep of [] \<Rightarrow> [[c]] | p # ps \<Rightarrow> (c # p) # ps))"

text \<open>
  \<open>strings.HasPrefix(strings.ToLower(tokenString), "bearer ")\<close>: the seven bytes of the
  prefix are ASCII, and only an ASCII letter is lowered to an ASCII letter of
  \<open>"bearer "\<close>, so lowering the ASCII capitals of the first seven bytes decides it.
\<close>

definition lowerASCII :: "char \<Rightarrow> char" where
  "lowerASCII c =
     (if c \<in> set ''ABCDEFGHIJKLMNOPQRSTUVWXYZ'' then char_of (of_char c + (32::nat)) else c)"

definition hasBearerPrefix :: "string \<Rightarrow> bool" where
  "hasBearerPrefix tokenString = (map lowerASCII (take 7 tokenString) = ''bearer '')"

text \<open>
  \<open>(*Parser).ParseUnverified(tokenString, claims)\<close> (parser.go) for a parser without
  options and \<open>claims\<close> of dynamic type \<open>jwt.MapClaims\<close>, as \<open>Check\<close> calls it. The
  result is the error (\<open>Inl\<close>) or the token (\<open>Inr\<close>); \<open>Check\<close> never reads the token
  that comes with an error. The signature segment is not read.
\<close>

definition ParseUnverified :: "extern \<Rightarrow> string \<Rightarrow> (string \<rightharpoonup> json) \<Rightarrow> error + Token" where
  "ParseUnverified L tokenString claims =
     (let parts = Split tokenString CHR ''.'' in
      if length parts \<noteq> 3 then
        Inl (newError ''token contains an invalid number of segments'' (Sentinel ErrTokenMalformed) [])
      else
        case DecodeSegment L (parts ! 0) of
          Inl msg \<Rightarrow>
            if hasBearerPrefix tokenString then
              Inl (newError (''tokenstring should not contain '' @ [CHR 0x27] @ ''bearer '' @ [CHR 0x27])
                     (Sentinel ErrTokenMalformed) [])
            else
              Inl (newError ''could not base64 decode header'' (Sentinel ErrTokenMalformed) [leafError msg])
        | Inr headerBytes \<Rightarrow>
            (case Unmarshal L headerBytes of
               Inl msg \<Rightarrow>
                 Inl (newError ''could not JSON decode header'' (Sentinel ErrTokenMalformed) [leafError msg])
             | Inr hdr \<Rightarrow>
                 (let header = (case hdr of None \<Rightarrow> Map.empty | Some h \<Rightarrow> h) in
                  case DecodeSegment L (parts ! 1) of
                    Inl msg \<Rightarrow>
                      Inl (newError ''could not base64 decode claim'' (Sentinel ErrTokenMalformed) [leafError msg])
                  | Inr claimBytes \<Rightarrow>
                      (case Decode L claimBytes of
                         Inl msg \<Rightarrow>
                           Inl (newError ''could not JSON decode claim'' (Sentinel ErrTokenMalformed) [leafError msg])
                       | Inr decoded \<Rightarrow>
                           (let claims' = (case decoded of None \<Rightarrow> claims | Some c \<Rightarrow> claims ++ c) in
                            case index header ''alg'' of
                              JString method \<Rightarrow>
                                if GetSigningMethod L method then
                                  Inr \<lparr>Raw = tokenString, Method = method, Header = header,
                                       Claims = MapClaims claims'\<rparr>
                                else
                                  Inl (newError ''signing method (alg) is unavailable''
                                         (Sentinel ErrTokenUnverifiable) [])
                            | _ \<Rightarrow>
                                Inl (newError ''signing method (alg) is unspecified''
                                       (Sentinel ErrTokenUnverifiable) []))))))"

text \<open>
  \<open>MapClaims.parseNumericDate(key)\<close> (map_claims.go): a missing key and the number
  \<open>0\<close> give neither a date nor an error; a \<open>float64\<close> gives its date; a value of any
  other type gives an error that wraps \<open>ErrInvalidType\<close>. (A parser without options
  never stores a \<open>json.Number\<close>.)
\<close>

definition parseNumericDate ::
  "extern \<Rightarrow> (string \<rightharpoonup> json) \<Rightarrow> string \<Rightarrow> NumericDate option \<times> error option" where
  "parseNumericDate L m key =
     (case m key of
        None \<Rightarrow> (None, None)
      | Some v \<Rightarrow>
          (case v of
             JFloat64 exp' \<Rightarrow>
               if exp' = 0 then (None, None)
               else (Some (newNumericDateFromSeconds L exp'), None)
           | _ \<Rightarrow> (None, Some (newError (key @ '' is invalid'') (Sentinel ErrInvalidType) []))))"

text \<open>
  The method \<open>GetExpirationTime\<close> of \<open>jwt.Claims\<close>: a pointer to a date and an error, either
  of which may be \<open>nil\<close>.
\<close>

fun GetExpirationTime :: "extern \<Rightarrow> Claims \<Rightarrow> NumericDate option \<times> error option" where
  "GetExpirationTime L (MapClaims m) = parseNumericDate L m ''exp''"
| "GetExpirationTime L (RegisteredClaims expiresAt) = (expiresAt, None)"

section \<open>Package \<open>appkey\<close>: \<open>Check\<close>\<close>

text \<open>
  The session, \<open>atproto.ServerCreateSession_Output\<close>. \<open>Check\<close> receives a pointer to it:
  \<open>None\<close> is the \<open>nil\<close> pointer. The record is extensible, which stands for the fields
  that later versions of the struct add.
\<close>

record ServerCreateSession_Output =
  AccessJwt :: string
  Did :: string
  Email :: "string option"
  Handle :: string
  RefreshJwt :: string

text \<open>A call returns an error value, which may be \<open>nil\<close>, or panics.\<close>

datatype runtime_error = NilPointerDereference

datatype outcome =
    Return "error option"
  | Panic runtime_error

text \<open>
  \<open>Check\<close> (client.go, lines 42-76), with the collaborators and the reading of the clock
  as arguments. Reading \<open>sess.AccessJwt\<close> through a \<open>nil\<close> pointer panics, and so does
  reading \<open>current.Time\<close> (line 60) when \<open>GetExpirationTime\<close> returned a \<open>nil\<close> date
  with a \<open>nil\<close> error.
\<close>

definition Check :: "extern \<Rightarrow> Time \<Rightarrow> 'a ServerCreateSession_Output_scheme option \<Rightarrow> outcome" where
  "Check L now sess =
     (case sess of
        None \<Rightarrow> Panic NilPointerDereference
      | Some s \<Rightarrow>
          (case ParseUnverified L (AccessJwt s) Map.empty of
             Inl err \<Rightarrow> Return (Some err)
           | Inr token \<Rightarrow>
               (case Claims token of
                  RegisteredClaims x \<Rightarrow>
                    Return (Some (Errorf [Lit ''unexpected type for claims: '', V ''jwt.RegisteredClaims'']))
                | MapClaims claims \<Rightarrow>
                    if index claims ''scope'' \<noteq> JString ''com.atproto.appPass'' then
                      Return (Some (Errorf [W (Sentinel ErrLoginUnauthorized), Lit '': '',
                                            W (Sentinel ErrMasterCredentials)]))
                    else
                      (case GetExpirationTime L (Claims token) of
                         (current, Some err) \<Rightarrow> Return (Some err)
                       | (None, None) \<Rightarrow> Panic NilPointerDereference
                       | (Some current, None) \<Rightarrow>
                           if Until now (Time current) < 0 then
                             Return (Some (Errorf [W (Sentinel ErrSessionExpired),
                                                   Lit '': refresh token was valid until '',
                                                   V (Time_String L (Time current))]))
                           else
                             (case ParseUnverified L (RefreshJwt s) Map.empty of
                                Inl err \<Rightarrow> Return (Some err)
                              | Inr token' \<Rightarrow>
                                  (case GetExpirationTime L (Claims token') of
                                     (refresh, Some err) \<Rightarrow> Return (Some err)
                                   | (refresh, None) \<Rightarrow> Return None))))))"

section \<open>Conditions on token strings\<close>

text \<open>
  The conditions under which the properties below are stated, in terms of the parser. A
  token string decodes to a claims set when \<open>ParseUnverified\<close> returns no error and the
  token carries the claims as a \<open>jwt.MapClaims\<close>; it is malformed when \<open>ParseUnverified\<close>
  returns an error.
\<close>

definition decodes :: "extern \<Rightarrow> string \<Rightarrow> (string \<rightharpoonup> json) \<Rightarrow> bool" where
  "decodes L tokenString claims =
     (case ParseUnverified L tokenString Map.empty of
        Inl err \<Rightarrow> False
      | Inr token \<Rightarrow> Claims token = MapClaims claims)"

definition malformed :: "extern \<Rightarrow> string \<Rightarrow> bool" where
  "malformed L tokenString = isl (ParseUnverified L tokenString Map.empty)"

text \<open>
  The expiry status of an access token at a reading of the clock: whether it decodes to
  claims with an expiration date that lies before that instant.
\<close>

definition expired :: "extern \<Rightarrow> Time \<Rightarrow> string \<Rightarrow> bool" where
  "expired L now tokenString =
     (case ParseUnverified L tokenString Map.empty of
        Inl err \<Rightarrow> False
      | Inr token \<Rightarrow>
          (case GetExpirationTime L (Claims token) of
             (Some current, None) \<Rightarrow> Time current < now
           | _ \<Rightarrow> False))"

text \<open>
  The access token passes its checks: it decodes, its scope is the application-key scope,
  and its expiration date is read and does not lie before the reading of the clock.
\<close>

definition access_passes :: "extern \<Rightarrow> Time \<Rightarrow> string \<Rightarrow> bool" where
  "access_passes L now tokenString =
     (case ParseUnverified L tokenString Map.empty of
        Inl err \<Rightarrow> False
      | Inr token \<Rightarrow>
          (case Claims token of
             RegisteredClaims x \<Rightarrow> False
           | MapClaims claims \<Rightarrow>
               claims ''scope'' = Some (JString ''com.atproto.appPass'') \<and>
               (case GetExpirationTime L (Claims token) of
                  (Some current, None) \<Rightarrow> now \<le> Time current
                | _ \<Rightarrow> False)))"

text \<open>
  The claims in the payload segment of a token string of three segments, read on their own:
  what the second segment decodes to, whatever the header says.
\<close>

definition payload_claims :: "extern \<Rightarrow> string \<Rightarrow> (string \<rightharpoonup> json) option" where
  "payload_claims L tokenString =
     (case Split tokenString CHR ''.'' of
        [h, p, sg] \<Rightarrow>
          (case DecodeSegment L p of
             Inl msg \<Rightarrow> None
           | Inr claimBytes \<Rightarrow>
               (case Decode L claimBytes of
                  Inl msg \<Rightarrow> None
                | Inr decoded \<Rightarrow> decoded))
      | _ \<Rightarrow> None)"

text \<open>The type switch of \<open>parseNumericDate\<close>: whether a value is a \<open>float64\<close>.\<close>

fun isFloat64 :: "json \<Rightarrow> bool" where
  "isFloat64 (JFloat64 x) = True"
| "isFloat64 v = False"

section \<open>The call in a memory\<close>

text \<open>
  \<open>sess\<close> is \<open>nil\<close> or the address of a session struct in the caller's memory. Reading a
  field through the pointer reads the memory; through \<open>nil\<close> it panics.
\<close>

type_synonym addr = nat

definition deref :: "addr option \<Rightarrow> (addr \<rightharpoonup> 's) \<Rightarrow> 's option \<times> (addr \<rightharpoonup> 's)" where
  "deref p mem = (case p of None \<Rightarrow> None | Some a \<Rightarrow> mem a, mem)"

text \<open>
  The body of \<open>Check\<close> once more, with the memory passed along: \<open>sess.AccessJwt\<close>
  (line 43) and \<open>sess.RefreshJwt\<close> (line 64) are the two reads; the strings go to the
  parser by value; the body has no assignment through \<open>sess\<close>, no write to a package
  variable and no output.
\<close>

definition Check_in ::
  "extern \<Rightarrow> Time \<Rightarrow> addr option \<Rightarrow> (addr \<rightharpoonup> 'a ServerCreateSession_Output_scheme)
     \<Rightarrow> outcome \<times> (addr \<rightharpoonup> 'a ServerCreateSession_Output_scheme)" where
  "Check_in L now sess mem =
     (case deref sess mem of
        (None, mem1) \<Rightarrow> (Panic NilPointerDereference, mem1)
      | (Some s, mem1) \<Rightarrow>
          (case ParseUnverified L (AccessJwt s) Map.empty of
             Inl err \<Rightarrow> (Return (Some err), mem1)
           | Inr token \<Rightarrow>
               (case Claims token of
                  RegisteredClaims x \<Rightarrow>
                    (Return (Some (Errorf [Lit ''unexpected type for claims: '',
                                           V ''jwt.RegisteredClaims''])), mem1)
                | MapClaims claims \<Rightarrow>
                    if index claims ''scope'' \<noteq> JString ''com.atproto.appPass'' then
                      (Return (Some (Errorf [W (Sentinel ErrLoginUnauthorized), Lit '': '',
                                             W (Sentinel ErrMasterCredentials)])), mem1)
                    else
                      (case GetExpirationTime L (Claims token) of
                         (current, Some err) \<Rightarrow> (Return (Some err), mem1)
                       | (None, None) \<Rightarrow> (Panic NilPointerDereference, mem1)
                       | (Some current, None) \<Rightarrow>
                           if Until now (Time current) < 0 then
                             (Return (Some (Errorf [W (Sentinel ErrSessionExpired),
                                                    Lit '': refresh token was valid until '',
                                                    V (Time_String L (Time current))])), mem1)
                           else
                             (case deref sess mem1 of
                                (None, mem2) \<Rightarrow> (Panic NilPointerDereference, mem2)
                              | (Some s', mem2) \<Rightarrow>
                                  (case ParseUnverified L (RefreshJwt s') Map.empty of
                                     Inl err \<Rightarrow> (Return (Some err), mem2)
                                   | Inr token' \<Rightarrow>
                                       (case GetExpirationTime L (Claims token') of
                                          (refresh, Some err) \<Rightarrow> (Return (Some err), mem2)
                                        | (refresh, None) \<Rightarrow> (Return None, mem2))))))))"

section \<open>A finite excerpt of the collaborators, and concrete sessions\<close>

text \<open>
  The tokens below are real ones: the header segment is the base64url text of
  \<open>{"alg":"HS256","typ":"JWT"}\<close>, each payload segment that of the JSON text beside it, and
  the third segment (\<open>c2ln\<close>) stands for a signature, which is never read. \<open>excerpt\<close>
  agrees with \<open>encoding/base64\<close>, \<open>encoding/json\<close> and the token library on these
  segments, texts, numbers and instants (in the zone UTC); it rejects every other segment
  and text.
\<close>

definition header_HS256 :: "string \<rightharpoonup> json" where
  "header_HS256 = [''alg'' \<mapsto> JString ''HS256'', ''typ'' \<mapsto> JString ''JWT'']"

definition header_HS999 :: "string \<rightharpoonup> json" where
  "header_HS999 = [''alg'' \<mapsto> JString ''HS999'', ''typ'' \<mapsto> JString ''JWT'']"

definition claims_app_zero :: "string \<rightharpoonup> json" where
  "claims_app_zero = [''scope'' \<mapsto> JString ''com.atproto.appPass'', ''exp'' \<mapsto> JFloat64 0]"

definition claims_app_fraction :: "string \<rightharpoonup> json" where
  "claims_app_fraction =
     [''scope'' \<mapsto> JString ''com.atproto.appPass'', ''exp'' \<mapsto> JFloat64 2000000000.5]"

definition claims_app_future :: "string \<rightharpoonup> json" where
  "claims_app_future =
     [''scope'' \<mapsto> JString ''com.atproto.appPass'', ''exp'' \<mapsto> JFloat64 2000000000]"

definition claims_app_past :: "string \<rightharpoonup> json" where
  "claims_app_past =
     [''scope'' \<mapsto> JString ''com.atproto.appPass'', ''exp'' \<mapsto> JFloat64 1000000000]"

definition claims_full_past :: "string \<rightharpoonup> json" where
  "claims_full_past =
     [''scope'' \<mapsto> JString ''com.atproto.full'', ''exp'' \<mapsto> JFloat64 1000000000]"

definition claims_app_noexp :: "string \<rightharpoonup> json" where
  "claims_app_noexp = [''scope'' \<mapsto> JString ''com.atproto.appPass'']"

definition claims_app_badexp :: "string \<rightharpoonup> json" where
  "claims_app_badexp =
     [''scope'' \<mapsto> JString ''com.atproto.appPass'', ''exp'' \<mapsto> JString ''soon'']"

definition claims_noscope :: "string \<rightharpoonup> json" where
  "claims_noscope = [''exp'' \<mapsto> JFloat64 2000000000]"

definition claims_refresh_past :: "string \<rightharpoonup> json" where
  "claims_refresh_past =
     [''scope'' \<mapsto> JString ''com.atproto.refresh'', ''exp'' \<mapsto> JFloat64 1000000000]"

definition claims_refresh_noexp :: "string \<rightharpoonup> json" where
  "claims_refresh_noexp = [''scope'' \<mapsto> JString ''com.atproto.refresh'']"

definition claims_refresh_badexp :: "string \<rightharpoonup> json" where
  "claims_refresh_badexp =
     [''scope'' \<mapsto> JString ''com.atproto.refresh'', ''exp'' \<mapsto> JString ''soon'']"

definition excerpt_DecodeSegment :: "string \<Rightarrow> string + string" where
  \<open>excerpt_DecodeSegment seg =
     (if seg = ''eyJhbGciOiJIUzI1NiIsInR5cCI6IkpXVCJ9'' then
        Inr ''{"alg":"HS256","typ":"JWT"}''
      else if seg = ''eyJzY29wZSI6ImNvbS5hdHByb3RvLmFwcFBhc3MiLCJleHAiOjIwMDAwMDAwMDB9'' then
        Inr ''{"scope":"com.atproto.appPass","exp":2000000000}''
      else if seg = ''eyJzY29wZSI6ImNvbS5hdHByb3RvLmFwcFBhc3MiLCJleHAiOjEwMDAwMDAwMDB9'' then
        Inr ''{"scope":"com.atproto.appPass","exp":1000000000}''
      else if seg = ''eyJzY29wZSI6ImNvbS5hdHByb3RvLmZ1bGwiLCJleHAiOjEwMDAwMDAwMDB9'' then
        Inr ''{"scope":"com.atproto.full","exp":1000000000}''
      else if seg = ''eyJzY29wZSI6ImNvbS5hdHByb3RvLmFwcFBhc3MifQ'' then
        Inr ''{"scope":"com.atproto.appPass"}''
      else if seg = ''eyJzY29wZSI6ImNvbS5hdHByb3RvLmFwcFBhc3MiLCJleHAiOiJzb29uIn0'' then
        Inr ''{"scope":"com.atproto.appPass","exp":"soon"}''
      else if seg = ''eyJleHAiOjIwMDAwMDAwMDB9'' then
        Inr ''{"exp":2000000000}''
      else if seg = ''eyJzY29wZSI6ImNvbS5hdHByb3RvLnJlZnJlc2giLCJleHAiOjEwMDAwMDAwMDB9'' then
        Inr ''{"scope":"com.atproto.refresh","exp":1000000000}''
      else if seg = ''eyJzY29wZSI6ImNvbS5hdHByb3RvLnJlZnJlc2gifQ'' then
        Inr ''{"scope":"com.atproto.refresh"}''
      else if seg = ''eyJzY29wZSI6ImNvbS5hdHByb3RvLnJlZnJlc2giLCJleHAiOiJzb29uIn0'' then
        Inr ''{"scope":"com.atproto.refresh","exp":"soon"}''
      else if seg = ''eyJhbGciOiJIUzk5OSIsInR5cCI6IkpXVCJ9'' then
        Inr ''{"alg":"HS999","typ":"JWT"}''
      else if seg = ''eyJzY29wZSI6ImNvbS5hdHByb3RvLmFwcFBhc3MiLCJleHAiOjB9'' then
        Inr ''{"scope":"com.atproto.appPass","exp":0}''
      else if seg = ''eyJzY29wZSI6ImNvbS5hdHByb3RvLmFwcFBhc3MiLCJleHAiOjIwMDAwMDAwMDAuNX0'' then
        Inr ''{"scope":"com.atproto.appPass","exp":2000000000.5}''
      else Inl ''illegal base64 data at input byte 0'')\<close>

definition excerpt_Unmarshal :: "string \<Rightarrow> string + (string \<rightharpoonup> json) option" where
  \<open>excerpt_Unmarshal data =
     (if data = ''{"alg":"HS256","typ":"JWT"}'' then Inr (Some header_HS256)
      else if data = ''{"scope":"com.atproto.appPass","exp":2000000000}'' then
        Inr (Some claims_app_future)
      else if data = ''{"scope":"com.atproto.appPass","exp":1000000000}'' then
        Inr (Some claims_app_past)
      else if data = ''{"scope":"com.atproto.full","exp":1000000000}'' then
        Inr (Some claims_full_past)
      else if data = ''{"scope":"com.atproto.appPass"}'' then Inr (Some claims_app_noexp)
      else if data = ''{"scope":"com.atproto.appPass","exp":"soon"}'' then
        Inr (Some claims_app_badexp)
      else if data = ''{"exp":2000000000}'' then Inr (Some claims_noscope)
      else if data = ''{"scope":"com.atproto.refresh","exp":1000000000}'' then
        Inr (Some claims_refresh_past)
      else if data = ''{"scope":"com.atproto.refresh"}'' then Inr (Some claims_refresh_noexp)
      else if data = ''{"scope":"com.atproto.refresh","exp":"soon"}'' then
        Inr (Some claims_refresh_badexp)
      else if data = ''{"alg":"HS999","typ":"JWT"}'' then Inr (Some header_HS999)
      else if data = ''{"scope":"com.atproto.appPass","exp":0}'' then Inr (Some claims_app_zero)
      else if data = ''{"scope":"com.atproto.appPass","exp":2000000000.5}'' then
        Inr (Some claims_app_fraction)
      else Inl ''unexpected end of JSON input'')\<close>

definition excerpt_Time_String :: "Time \<Rightarrow> string" where
  "excerpt_Time_String t =
     (if t = 1000000000000000000 then ''2001-09-09 01:46:40 +0000 UTC''
      else if t = 2000000000000000000 then ''2033-05-18 03:33:20 +0000 UTC''
      else [])"

definition excerpt :: extern where
  "excerpt =
     \<lparr>DecodeSegment = excerpt_DecodeSegment,
      Unmarshal = excerpt_Unmarshal,
      Decode = excerpt_Unmarshal,
      GetSigningMethod = (\<lambda>alg. alg \<in> set [''HS256'', ''HS384'', ''HS512'', ''RS256'', ''RS384'',
         ''RS512'', ''ES256'', ''ES384'', ''ES512'', ''PS256'', ''PS384'', ''PS512'', ''EdDSA'',
         ''none'']),
      newNumericDateFromSeconds = (\<lambda>f. NumericDate (\<lfloor>f\<rfloor> * 1000000000)),
      Time_String = excerpt_Time_String\<rparr>"

text \<open>The reading of the clock: 2023-11-14 22:13:20 UTC.\<close>

definition now0 :: Time where
  "now0 = 1700000000000000000"

text \<open>A later reading of the clock: 2033-05-18 03:33:20.2 UTC.\<close>

definition now_later :: Time where
  "now_later = 2000000000200000000"

definition access_full_past :: string where
  "access_full_past =
     ''eyJhbGciOiJIUzI1NiIsInR5cCI6IkpXVCJ9.eyJzY29wZSI6ImNvbS5hdHByb3RvLmZ1bGwiLCJleHAiOjEwMDAwMDAwMDB9.c2ln''"

definition access_app_past :: string where
  "access_app_past =
     ''eyJhbGciOiJIUzI1NiIsInR5cCI6IkpXVCJ9.eyJzY29wZSI6ImNvbS5hdHByb3RvLmFwcFBhc3MiLCJleHAiOjEwMDAwMDAwMDB9.c2ln''"

definition access_app_future :: string where
  "access_app_future =
     ''eyJhbGciOiJIUzI1NiIsInR5cCI6IkpXVCJ9.eyJzY29wZSI6ImNvbS5hdHByb3RvLmFwcFBhc3MiLCJleHAiOjIwMDAwMDAwMDB9.c2ln''"

definition access_app_noexp :: string where
  "access_app_noexp =
     ''eyJhbGciOiJIUzI1NiIsInR5cCI6IkpXVCJ9.eyJzY29wZSI6ImNvbS5hdHByb3RvLmFwcFBhc3MifQ.c2ln''"

definition access_app_badexp :: string where
  "access_app_badexp =
     ''eyJhbGciOiJIUzI1NiIsInR5cCI6IkpXVCJ9.eyJzY29wZSI6ImNvbS5hdHByb3RvLmFwcFBhc3MiLCJleHAiOiJzb29uIn0.c2ln''"

text \<open>The number \<open>0\<close> as expiration, and an expiration half a second after a full second.\<close>

definition access_app_zero :: string where
  "access_app_zero =
     ''eyJhbGciOiJIUzI1NiIsInR5cCI6IkpXVCJ9.eyJzY29wZSI6ImNvbS5hdHByb3RvLmFwcFBhc3MiLCJleHAiOjB9.c2ln''"

definition access_app_fraction :: string where
  "access_app_fraction =
     ''eyJhbGciOiJIUzI1NiIsInR5cCI6IkpXVCJ9.eyJzY29wZSI6ImNvbS5hdHByb3RvLmFwcFBhc3MiLCJleHAiOjIwMDAwMDAwMDAuNX0.c2ln''"

text \<open>
  The payloads of \<open>access_app_past\<close> and \<open>access_app_future\<close> under the header
  \<open>{"alg":"HS999","typ":"JWT"}\<close>, which names no registered signing method.
\<close>

definition access_hs999_past :: string where
  "access_hs999_past =
     ''eyJhbGciOiJIUzk5OSIsInR5cCI6IkpXVCJ9.eyJzY29wZSI6ImNvbS5hdHByb3RvLmFwcFBhc3MiLCJleHAiOjEwMDAwMDAwMDB9.c2ln''"

definition access_hs999_future :: string where
  "access_hs999_future =
     ''eyJhbGciOiJIUzk5OSIsInR5cCI6IkpXVCJ9.eyJzY29wZSI6ImNvbS5hdHByb3RvLmFwcFBhc3MiLCJleHAiOjIwMDAwMDAwMDB9.c2ln''"

definition access_noscope :: string where
  "access_noscope = ''eyJhbGciOiJIUzI1NiIsInR5cCI6IkpXVCJ9.eyJleHAiOjIwMDAwMDAwMDB9.c2ln''"

definition refresh_past :: string where
  "refresh_past =
     ''eyJhbGciOiJIUzI1NiIsInR5cCI6IkpXVCJ9.eyJzY29wZSI6ImNvbS5hdHByb3RvLnJlZnJlc2giLCJleHAiOjEwMDAwMDAwMDB9.c2ln''"

definition refresh_noexp :: string where
  "refresh_noexp =
     ''eyJhbGciOiJIUzI1NiIsInR5cCI6IkpXVCJ9.eyJzY29wZSI6ImNvbS5hdHByb3RvLnJlZnJlc2gifQ.c2ln''"

definition refresh_badexp :: string where
  "refresh_badexp =
     ''eyJhbGciOiJIUzI1NiIsInR5cCI6IkpXVCJ9.eyJzY29wZSI6ImNvbS5hdHByb3RvLnJlZnJlc2giLCJleHAiOiJzb29uIn0.c2ln''"

definition session :: "string \<Rightarrow> string \<Rightarrow> ServerCreateSession_Output" where
  "session access refresh =
     \<lparr>AccessJwt = access, Did = ''did:plc:ewvi7nxzyoun6zhxrhs64oiz'', Email = None,
      Handle = ''alice.test'', RefreshJwt = refresh\<rparr>"

section \<open>Auxiliary facts\<close>

subsection \<open>Time and errors\<close>

lemma Until_negative: "Until now t < 0 \<longleftrightarrow> t < now"
  by (simp add: Until_def Sub_def Let_def minDuration_def maxDuration_def)

lemma wrapped_append: "wrapped (ps @ qs) = wrapped ps @ wrapped qs"
  by (induction ps rule: wrapped.induct) simp_all

lemma wrapped_further: "wrapped (concat (map (\<lambda>e. [Lit sep, W e]) errs)) = errs"
  by (induction errs) simp_all

lemma wrapped_newError:
  "wrapped ((if message \<noteq> [] then [W err, Lit sep, V message] else [W err])
            @ concat (map (\<lambda>e. [Lit sep', W e]) errs)) = err # errs"
  by (simp add: wrapped_append wrapped_further)

lemma Is_newError:
  "Is (newError message err errs) target \<longleftrightarrow> Is err target \<or> Is_any errs target"
  unfolding newError_def Errorf_def Let_def wrapped_newError
  by (cases errs) simp_all

subsection \<open>The parser and the expiration date\<close>

lemma ParseUnverified_error:
  assumes "ParseUnverified L tokenString claims = Inl err"
  shows "(Is err ErrTokenMalformed \<or> Is err ErrTokenUnverifiable)
       \<and> \<not> Is err ErrLoginUnauthorized \<and> \<not> Is err ErrMasterCredentials
       \<and> \<not> Is err ErrSessionExpired"
  using assms
  by (auto simp: ParseUnverified_def Let_def Is_newError
           split: if_splits sum.splits option.splits json.splits)

lemma parseNumericDate_nil:
  "parseNumericDate L m key = (None, None) \<longleftrightarrow> m key = None \<or> m key = Some (JFloat64 0)"
  by (auto simp: parseNumericDate_def split: option.splits json.splits)

lemma decodes_iff:
  "decodes L a claims \<longleftrightarrow>
     (\<exists>token. ParseUnverified L a Map.empty = Inr token \<and> Claims token = MapClaims claims)"
  by (auto simp: decodes_def split: sum.splits)

lemma malformed_iff: "malformed L a \<longleftrightarrow> (\<exists>err. ParseUnverified L a Map.empty = Inl err)"
  by (cases "ParseUnverified L a Map.empty") (simp_all add: malformed_def)

lemma index_neq_JString:
  "index claims k \<noteq> JString v \<longleftrightarrow> claims k \<noteq> Some (JString v)"
  by (simp add: index_def split: option.splits)

lemma access_passes_iff:
  "access_passes L now a \<longleftrightarrow>
     (\<exists>claims current. decodes L a claims
        \<and> claims ''scope'' = Some (JString ''com.atproto.appPass'')
        \<and> GetExpirationTime L (MapClaims claims) = (Some current, None)
        \<and> now \<le> Time current)"
  by (auto simp: access_passes_def decodes_iff
           split: sum.splits Claims.splits prod.splits option.splits)

subsection \<open>\<open>Check\<close>, one stage at a time\<close>

lemma Check_access_error:
  "ParseUnverified L (AccessJwt s) Map.empty = Inl err \<Longrightarrow> Check L now (Some s) = Return (Some err)"
  by (simp add: Check_def)

lemma Check_wrong_scope:
  assumes "decodes L (AccessJwt s) claims"
      and "claims ''scope'' \<noteq> Some (JString ''com.atproto.appPass'')"
  shows "Check L now (Some s) =
           Return (Some (wrapErrors ''unauthorized: master credentials used''
                           [Sentinel ErrLoginUnauthorized, Sentinel ErrMasterCredentials]))"
  using assms
  by (auto simp: decodes_iff Check_def index_neq_JString Errorf_def)

lemma Check_right_scope:
  assumes "decodes L (AccessJwt s) claims"
      and "claims ''scope'' = Some (JString ''com.atproto.appPass'')"
  shows "Check L now (Some s) =
           (case GetExpirationTime L (MapClaims claims) of
              (current, Some err) \<Rightarrow> Return (Some err)
            | (None, None) \<Rightarrow> Panic NilPointerDereference
            | (Some current, None) \<Rightarrow>
                if Time current < now then
                  Return (Some (wrapError (''session expired: refresh token was valid until ''
                                             @ Time_String L (Time current))
                                  (Sentinel ErrSessionExpired)))
                else
                  (case ParseUnverified L (RefreshJwt s) Map.empty of
                     Inl err \<Rightarrow> Return (Some err)
                   | Inr token' \<Rightarrow>
                       (case GetExpirationTime L (Claims token') of
                          (refresh, Some err) \<Rightarrow> Return (Some err)
                        | (refresh, None) \<Rightarrow> Return None)))"
  using assms
  by (auto simp: decodes_iff Check_def index_def Errorf_def Until_negative
           split: prod.splits option.splits)

lemma Check_access_passes:
  assumes "access_passes L now (AccessJwt s)"
  shows "Check L now (Some s) =
           (case ParseUnverified L (RefreshJwt s) Map.empty of
              Inl err \<Rightarrow> Return (Some err)
            | Inr token' \<Rightarrow>
                (case GetExpirationTime L (Claims token') of
                   (refresh, Some err) \<Rightarrow> Return (Some err)
                 | (refresh, None) \<Rightarrow> Return None))"
proof -
  obtain claims current where d: "decodes L (AccessJwt s) claims"
    and sc: "claims ''scope'' = Some (JString ''com.atproto.appPass'')"
    and ex: "GetExpirationTime L (MapClaims claims) = (Some current, None)"
    and le: "now \<le> Time current"
    using assms by (auto simp: access_passes_iff)
  show ?thesis
    using Check_right_scope [OF d sc, of now] ex le by simp
qed

lemma Check_refresh_decodes:
  assumes "access_passes L now (AccessJwt s)"
      and "decodes L (RefreshJwt s) rclaims"
  shows "Check L now (Some s) =
           (case parseNumericDate L rclaims ''exp'' of
              (refresh, Some err) \<Rightarrow> Return (Some err)
            | (refresh, None) \<Rightarrow> Return None)"
proof -
  obtain token' where "ParseUnverified L (RefreshJwt s) Map.empty = Inr token'"
    and "Claims token' = MapClaims rclaims"
    using assms(2) by (auto simp: decodes_iff)
  then show ?thesis
    by (simp add: Check_access_passes [OF assms(1)])
qed

lemma Check_not_access_passes:
  assumes "\<not> access_passes L now (AccessJwt s)"
  shows "Check L now (Some (s\<lparr>RefreshJwt := r\<rparr>)) = Check L now (Some s)"
  using assms
  by (auto simp: Check_def access_passes_def index_def Until_negative
           split: sum.splits Claims.splits prod.splits option.splits json.splits if_splits)

text \<open>
  The call panics on a session exactly when its access token decodes with the
  application-key scope and \<open>GetExpirationTime\<close> returns neither a date nor an error,
  which is when the claim \<open>exp\<close> is absent or the number \<open>0\<close>.
\<close>

lemma Check_panics_iff:
  "Check L now (Some s) = Panic NilPointerDereference \<longleftrightarrow>
     (\<exists>claims. decodes L (AccessJwt s) claims
        \<and> claims ''scope'' = Some (JString ''com.atproto.appPass'')
        \<and> (claims ''exp'' = None \<or> claims ''exp'' = Some (JFloat64 0)))"
proof -
  have "Check L now (Some s) = Panic NilPointerDereference \<longleftrightarrow>
     (\<exists>claims. decodes L (AccessJwt s) claims
        \<and> claims ''scope'' = Some (JString ''com.atproto.appPass'')
        \<and> parseNumericDate L claims ''exp'' = (None, None))"
    by (auto simp: Check_def decodes_iff index_def
             split: sum.splits Claims.splits prod.splits option.splits json.splits if_splits)
  then show ?thesis
    by (simp add: parseNumericDate_nil)
qed

subsection \<open>The concrete sessions, evaluated\<close>

lemmas excerpt_simps = ParseUnverified_def excerpt_def excerpt_DecodeSegment_def
  excerpt_Unmarshal_def Let_def index_def header_HS256_def newError_def Errorf_def

lemma decodes_access_full_past: "decodes excerpt access_full_past claims_full_past"
  by (simp add: decodes_def access_full_past_def excerpt_simps)

lemma decodes_access_app_past: "decodes excerpt access_app_past claims_app_past"
  by (simp add: decodes_def access_app_past_def excerpt_simps)

lemma decodes_access_app_future: "decodes excerpt access_app_future claims_app_future"
  by (simp add: decodes_def access_app_future_def excerpt_simps)

lemma decodes_access_app_noexp: "decodes excerpt access_app_noexp claims_app_noexp"
  by (simp add: decodes_def access_app_noexp_def excerpt_simps)

lemma decodes_access_app_badexp: "decodes excerpt access_app_badexp claims_app_badexp"
  by (simp add: decodes_def access_app_badexp_def excerpt_simps)

lemma decodes_access_noscope: "decodes excerpt access_noscope claims_noscope"
  by (simp add: decodes_def access_noscope_def excerpt_simps)

lemma decodes_refresh_past: "decodes excerpt refresh_past claims_refresh_past"
  by (simp add: decodes_def refresh_past_def excerpt_simps)

lemma decodes_refresh_noexp: "decodes excerpt refresh_noexp claims_refresh_noexp"
  by (simp add: decodes_def refresh_noexp_def excerpt_simps)

lemma decodes_refresh_badexp: "decodes excerpt refresh_badexp claims_refresh_badexp"
  by (simp add: decodes_def refresh_badexp_def excerpt_simps)

lemma decodes_access_app_zero: "decodes excerpt access_app_zero claims_app_zero"
  by (simp add: decodes_def access_app_zero_def excerpt_simps)

lemma decodes_access_app_fraction: "decodes excerpt access_app_fraction claims_app_fraction"
  by (simp add: decodes_def access_app_fraction_def excerpt_simps)

lemma ParseUnverified_hs999_past:
  "ParseUnverified excerpt access_hs999_past Map.empty
     = Inl (wrapError ''token is unverifiable: signing method (alg) is unavailable''
              (Sentinel ErrTokenUnverifiable))"
  by (simp add: access_hs999_past_def excerpt_simps header_HS999_def)

lemma ParseUnverified_hs999_future:
  "ParseUnverified excerpt access_hs999_future Map.empty
     = Inl (wrapError ''token is unverifiable: signing method (alg) is unavailable''
              (Sentinel ErrTokenUnverifiable))"
  by (simp add: access_hs999_future_def excerpt_simps header_HS999_def)

lemma payload_claims_hs999_past: "payload_claims excerpt access_hs999_past = Some claims_app_past"
  by (simp add: payload_claims_def access_hs999_past_def excerpt_def excerpt_DecodeSegment_def
        excerpt_Unmarshal_def)

lemma payload_claims_hs999_future:
  "payload_claims excerpt access_hs999_future = Some claims_app_future"
  by (simp add: payload_claims_def access_hs999_future_def excerpt_def excerpt_DecodeSegment_def
        excerpt_Unmarshal_def)

lemma ParseUnverified_not_a_token:
  "ParseUnverified excerpt ''not-a-token'' Map.empty
     = Inl (wrapError ''token is malformed: token contains an invalid number of segments''
              (Sentinel ErrTokenMalformed))"
  by (simp add: excerpt_simps)

lemma malformed_not_a_token: "malformed excerpt ''not-a-token''"
  by (simp add: malformed_def ParseUnverified_not_a_token)

lemma scope_full_past: "claims_full_past ''scope'' \<noteq> Some (JString ''com.atproto.appPass'')"
  by (simp add: claims_full_past_def)

lemma scope_noscope: "claims_noscope ''scope'' \<noteq> Some (JString ''com.atproto.appPass'')"
  by (simp add: claims_noscope_def)

lemma scope_app_past: "claims_app_past ''scope'' = Some (JString ''com.atproto.appPass'')"
  by (simp add: claims_app_past_def)

lemma scope_app_future: "claims_app_future ''scope'' = Some (JString ''com.atproto.appPass'')"
  by (simp add: claims_app_future_def)

lemma scope_app_noexp: "claims_app_noexp ''scope'' = Some (JString ''com.atproto.appPass'')"
  by (simp add: claims_app_noexp_def)

lemma scope_app_badexp: "claims_app_badexp ''scope'' = Some (JString ''com.atproto.appPass'')"
  by (simp add: claims_app_badexp_def)

lemma scope_app_zero: "claims_app_zero ''scope'' = Some (JString ''com.atproto.appPass'')"
  by (simp add: claims_app_zero_def)

lemma scope_app_fraction: "claims_app_fraction ''scope'' = Some (JString ''com.atproto.appPass'')"
  by (simp add: claims_app_fraction_def)

lemma exp_app_zero: "claims_app_zero ''exp'' = Some (JFloat64 0)"
  by (simp add: claims_app_zero_def)

lemma exp_app_fraction: "claims_app_fraction ''exp'' = Some (JFloat64 2000000000.5)"
  by (simp add: claims_app_fraction_def)

lemma exp_app_noexp: "claims_app_noexp ''exp'' = None"
  by (simp add: claims_app_noexp_def)

lemma exp_refresh_noexp: "claims_refresh_noexp ''exp'' = None"
  by (simp add: claims_refresh_noexp_def)

lemma exp_refresh_badexp: "claims_refresh_badexp ''exp'' = Some (JString ''soon'')"
  by (simp add: claims_refresh_badexp_def)

lemma GetExpirationTime_full_past:
  "GetExpirationTime excerpt (MapClaims claims_full_past)
     = (Some (NumericDate 1000000000000000000), None)"
  by (simp add: parseNumericDate_def claims_full_past_def excerpt_def)

lemma GetExpirationTime_app_past:
  "GetExpirationTime excerpt (MapClaims claims_app_past)
     = (Some (NumericDate 1000000000000000000), None)"
  by (simp add: parseNumericDate_def claims_app_past_def excerpt_def)

lemma GetExpirationTime_app_future:
  "GetExpirationTime excerpt (MapClaims claims_app_future)
     = (Some (NumericDate 2000000000000000000), None)"
  by (simp add: parseNumericDate_def claims_app_future_def excerpt_def)

lemma GetExpirationTime_app_fraction:
  "GetExpirationTime excerpt (MapClaims claims_app_fraction)
     = (Some (NumericDate 2000000000000000000), None)"
  by (simp add: parseNumericDate_def claims_app_fraction_def excerpt_def)

lemma GetExpirationTime_app_badexp:
  "GetExpirationTime excerpt (MapClaims claims_app_badexp)
     = (None, Some (wrapError ''invalid type for claim: exp is invalid'' (Sentinel ErrInvalidType)))"
  by (simp add: parseNumericDate_def claims_app_badexp_def newError_def Errorf_def)

lemma GetExpirationTime_refresh_past:
  "GetExpirationTime excerpt (MapClaims claims_refresh_past)
     = (Some (NumericDate 1000000000000000000), None)"
  by (simp add: parseNumericDate_def claims_refresh_past_def excerpt_def)

lemma GetExpirationTime_refresh_noexp:
  "GetExpirationTime excerpt (MapClaims claims_refresh_noexp) = (None, None)"
  by (simp add: parseNumericDate_def claims_refresh_noexp_def)

lemma GetExpirationTime_refresh_badexp:
  "GetExpirationTime excerpt (MapClaims claims_refresh_badexp)
     = (None, Some (wrapError ''invalid type for claim: exp is invalid'' (Sentinel ErrInvalidType)))"
  by (simp add: parseNumericDate_def claims_refresh_badexp_def newError_def Errorf_def)

lemma access_passes_app_future: "access_passes excerpt now0 access_app_future"
proof -
  have "now0 \<le> Time (NumericDate 2000000000000000000)"
    by (simp add: now0_def)
  with decodes_access_app_future scope_app_future GetExpirationTime_app_future show ?thesis
    unfolding access_passes_iff by blast
qed

lemma not_access_passes_full_past: "\<not> access_passes excerpt now0 access_full_past"
proof -
  obtain token where "ParseUnverified excerpt access_full_past Map.empty = Inr token"
    and "Claims token = MapClaims claims_full_past"
    using decodes_access_full_past by (auto simp: decodes_iff)
  then show ?thesis
    by (simp add: access_passes_def scope_full_past del: GetExpirationTime.simps)
qed

lemma expired_full_past: "expired excerpt now0 access_full_past"
proof -
  obtain token where "ParseUnverified excerpt access_full_past Map.empty = Inr token"
    and "Claims token = MapClaims claims_full_past"
    using decodes_access_full_past by (auto simp: decodes_iff)
  then show ?thesis
    by (simp add: expired_def GetExpirationTime_full_past now0_def del: GetExpirationTime.simps)
qed

lemma expired_app_future:
  "expired excerpt now0 access_app_future = expired excerpt (now0 + 60000000000) access_app_future"
proof -
  obtain token where "ParseUnverified excerpt access_app_future Map.empty = Inr token"
    and "Claims token = MapClaims claims_app_future"
    using decodes_access_app_future by (auto simp: decodes_iff)
  then show ?thesis
    by (simp add: expired_def GetExpirationTime_app_future now0_def del: GetExpirationTime.simps)
qed

section \<open>The claims\<close>

text \<open>
  C1. For every session whose access token decodes to a claims set in which the claim
  \<open>scope\<close> is not exactly the string \<open>com.atproto.appPass\<close> (the claim may be absent, or
  a value of another type), \<open>Check\<close> returns a non-nil error that matches both
  \<open>ErrLoginUnauthorized\<close> and \<open>ErrMasterCredentials\<close>.
\<close>

theorem Check_master_credentials:
  assumes "decodes L (AccessJwt s) claims"
      and "claims ''scope'' \<noteq> Some (JString ''com.atproto.appPass'')"
  shows "\<exists>err. Check L now (Some s) = Return (Some err)
           \<and> Is err ErrLoginUnauthorized \<and> Is err ErrMasterCredentials"
  using Check_wrong_scope [OF assms] by simp

text \<open>A master token with the scope \<open>com.atproto.full\<close>, and a token with no scope at all.\<close>

theorem Check_master_credentials_witness:
  "decodes excerpt (AccessJwt (session access_full_past refresh_past)) claims_full_past
   \<and> claims_full_past ''scope'' \<noteq> Some (JString ''com.atproto.appPass'')
   \<and> (\<exists>err. Check excerpt now0 (Some (session access_full_past refresh_past)) = Return (Some err)
         \<and> Is err ErrLoginUnauthorized \<and> Is err ErrMasterCredentials)
   \<and> decodes excerpt (AccessJwt (session access_noscope refresh_past)) claims_noscope
   \<and> claims_noscope ''scope'' = None
   \<and> (\<exists>err. Check excerpt now0 (Some (session access_noscope refresh_past)) = Return (Some err)
         \<and> Is err ErrLoginUnauthorized \<and> Is err ErrMasterCredentials)"
proof -
  have d1: "decodes excerpt (AccessJwt (session access_full_past refresh_past)) claims_full_past"
    using decodes_access_full_past by (simp add: session_def)
  have d2: "decodes excerpt (AccessJwt (session access_noscope refresh_past)) claims_noscope"
    using decodes_access_noscope by (simp add: session_def)
  have n2: "claims_noscope ''scope'' = None"
    by (simp add: claims_noscope_def)
  show ?thesis
    using d1 scope_full_past d2 n2
      Check_master_credentials [OF d1 scope_full_past, of now0]
      Check_master_credentials [OF d2 scope_noscope, of now0]
    by blast
qed

text \<open>
  C2, as amended. For every session whose access token decodes, has the scope
  \<open>com.atproto.appPass\<close> and an expiration date, as \<open>GetExpirationTime\<close> returns it (the
  claim \<open>exp\<close> is a number other than \<open>0\<close>), strictly before the reading of the clock,
  \<open>Check\<close> returns an error that matches \<open>ErrSessionExpired\<close> and whose text contains the
  printed expiration date.
\<close>

theorem Check_session_expired:
  assumes "decodes L (AccessJwt s) claims"
      and "claims ''scope'' = Some (JString ''com.atproto.appPass'')"
      and "GetExpirationTime L (MapClaims claims) = (Some current, None)"
      and "Time current < now"
  shows "\<exists>err. Check L now (Some s) = Return (Some err)
           \<and> Is err ErrSessionExpired
           \<and> sublist (Time_String L (Time current)) (Error err)"
proof -
  have "Check L now (Some s) =
          Return (Some (wrapError (''session expired: refresh token was valid until ''
                                     @ Time_String L (Time current))
                          (Sentinel ErrSessionExpired)))"
    using Check_right_scope [OF assms(1,2), of now] assms(3,4) by simp
  moreover have "sublist (Time_String L (Time current))
                   (''session expired: refresh token was valid until '' @ Time_String L (Time current))"
    by (rule suffix_imp_sublist) (simp add: suffix_def)
  ultimately show ?thesis by simp
qed

theorem Check_session_expired_witness:
  "decodes excerpt (AccessJwt (session access_app_past refresh_past)) claims_app_past
   \<and> claims_app_past ''scope'' = Some (JString ''com.atproto.appPass'')
   \<and> GetExpirationTime excerpt (MapClaims claims_app_past)
        = (Some (NumericDate 1000000000000000000), None)
   \<and> Time (NumericDate 1000000000000000000) < now0
   \<and> (\<exists>err. Check excerpt now0 (Some (session access_app_past refresh_past)) = Return (Some err)
         \<and> Is err ErrSessionExpired
         \<and> sublist (Time_String excerpt (Time (NumericDate 1000000000000000000))) (Error err))
   \<and> Time_String excerpt (Time (NumericDate 1000000000000000000)) = ''2001-09-09 01:46:40 +0000 UTC''"
proof -
  have d: "decodes excerpt (AccessJwt (session access_app_past refresh_past)) claims_app_past"
    using decodes_access_app_past by (simp add: session_def)
  have t: "Time (NumericDate 1000000000000000000) < now0"
    by (simp add: now0_def)
  have p: "Time_String excerpt (Time (NumericDate 1000000000000000000)) = ''2001-09-09 01:46:40 +0000 UTC''"
    by (simp add: excerpt_def excerpt_Time_String_def)
  show ?thesis
    using d scope_app_past t p GetExpirationTime_app_past
      Check_session_expired [OF d scope_app_past GetExpirationTime_app_past t]
    by blast
qed

text \<open>
  C2 as stated fails. The payload of the first access token has the scope and an
  expiration in 2001, under a header that names no registered signing method: \<open>Check\<close>
  stops at the parser and returns its error, which does not match \<open>ErrSessionExpired\<close>.
  The second access token decodes and has the number \<open>0\<close> as expiration, the first second
  of 1970: \<open>GetExpirationTime\<close> returns neither a date nor an error, and the call panics.
\<close>

theorem Check_session_expired_counterexample:
  "payload_claims excerpt (AccessJwt (session access_hs999_past refresh_past)) = Some claims_app_past
   \<and> claims_app_past ''scope'' = Some (JString ''com.atproto.appPass'')
   \<and> GetExpirationTime excerpt (MapClaims claims_app_past)
        = (Some (NumericDate 1000000000000000000), None)
   \<and> Time (NumericDate 1000000000000000000) < now0
   \<and> Check excerpt now0 (Some (session access_hs999_past refresh_past))
        = Return (Some (wrapError ''token is unverifiable: signing method (alg) is unavailable''
                          (Sentinel ErrTokenUnverifiable)))
   \<and> \<not> Is (wrapError ''token is unverifiable: signing method (alg) is unavailable''
              (Sentinel ErrTokenUnverifiable)) ErrSessionExpired
   \<and> decodes excerpt (AccessJwt (session access_app_zero refresh_past)) claims_app_zero
   \<and> claims_app_zero ''scope'' = Some (JString ''com.atproto.appPass'')
   \<and> claims_app_zero ''exp'' = Some (JFloat64 0)
   \<and> Time (newNumericDateFromSeconds excerpt 0) < now0
   \<and> Check excerpt now0 (Some (session access_app_zero refresh_past))
        = Panic NilPointerDereference"
proof -
  have p: "payload_claims excerpt (AccessJwt (session access_hs999_past refresh_past))
             = Some claims_app_past"
    using payload_claims_hs999_past by (simp add: session_def)
  have t: "Time (NumericDate 1000000000000000000) < now0"
    by (simp add: now0_def)
  have "ParseUnverified excerpt (AccessJwt (session access_hs999_past refresh_past)) Map.empty
          = Inl (wrapError ''token is unverifiable: signing method (alg) is unavailable''
                   (Sentinel ErrTokenUnverifiable))"
    using ParseUnverified_hs999_past by (simp add: session_def)
  then have c: "Check excerpt now0 (Some (session access_hs999_past refresh_past))
        = Return (Some (wrapError ''token is unverifiable: signing method (alg) is unavailable''
                          (Sentinel ErrTokenUnverifiable)))"
    by (rule Check_access_error)
  have n: "\<not> Is (wrapError ''token is unverifiable: signing method (alg) is unavailable''
                  (Sentinel ErrTokenUnverifiable)) ErrSessionExpired"
    by simp
  have d: "decodes excerpt (AccessJwt (session access_app_zero refresh_past)) claims_app_zero"
    using decodes_access_app_zero by (simp add: session_def)
  have z: "Time (newNumericDateFromSeconds excerpt 0) < now0"
    by (simp add: excerpt_def now0_def)
  have k: "Check excerpt now0 (Some (session access_app_zero refresh_past))
             = Panic NilPointerDereference"
    using d scope_app_zero exp_app_zero unfolding Check_panics_iff by blast
  show ?thesis
    by (intro conjI p scope_app_past GetExpirationTime_app_past t c n d scope_app_zero
          exp_app_zero z k)
qed

text \<open>
  C3, as amended. For every session whose access token is malformed (the parser returns an
  error), and for every session whose access token passes its checks and whose refresh
  token is malformed, \<open>Check\<close> returns a non-nil error that matches none of
  \<open>ErrLoginUnauthorized\<close>, \<open>ErrMasterCredentials\<close> and \<open>ErrSessionExpired\<close>.
\<close>

theorem Check_malformed_token:
  assumes "malformed L (AccessJwt s)
           \<or> (access_passes L now (AccessJwt s) \<and> malformed L (RefreshJwt s))"
  shows "\<exists>err. Check L now (Some s) = Return (Some err)
           \<and> \<not> Is err ErrLoginUnauthorized \<and> \<not> Is err ErrMasterCredentials
           \<and> \<not> Is err ErrSessionExpired"
  using assms
proof
  assume "malformed L (AccessJwt s)"
  then obtain err where e: "ParseUnverified L (AccessJwt s) Map.empty = Inl err"
    by (auto simp: malformed_iff)
  from Check_access_error [OF e] ParseUnverified_error [OF e] show ?thesis by simp
next
  assume "access_passes L now (AccessJwt s) \<and> malformed L (RefreshJwt s)"
  then have p: "access_passes L now (AccessJwt s)"
    and "malformed L (RefreshJwt s)" by simp_all
  then obtain err where e: "ParseUnverified L (RefreshJwt s) Map.empty = Inl err"
    by (auto simp: malformed_iff)
  from Check_access_passes [OF p] e ParseUnverified_error [OF e] show ?thesis by simp
qed

theorem Check_malformed_token_witness:
  "malformed excerpt (AccessJwt (session ''not-a-token'' refresh_past))
   \<and> (\<exists>err. Check excerpt now0 (Some (session ''not-a-token'' refresh_past)) = Return (Some err)
         \<and> \<not> Is err ErrLoginUnauthorized \<and> \<not> Is err ErrMasterCredentials
         \<and> \<not> Is err ErrSessionExpired)
   \<and> access_passes excerpt now0 (AccessJwt (session access_app_future ''not-a-token''))
   \<and> malformed excerpt (RefreshJwt (session access_app_future ''not-a-token''))
   \<and> (\<exists>err. Check excerpt now0 (Some (session access_app_future ''not-a-token'')) = Return (Some err)
         \<and> \<not> Is err ErrLoginUnauthorized \<and> \<not> Is err ErrMasterCredentials
         \<and> \<not> Is err ErrSessionExpired)"
proof -
  have m1: "malformed excerpt (AccessJwt (session ''not-a-token'' refresh_past))"
    using malformed_not_a_token by (simp add: session_def)
  have p2: "access_passes excerpt now0 (AccessJwt (session access_app_future ''not-a-token''))"
    using access_passes_app_future by (simp add: session_def)
  have m2: "malformed excerpt (RefreshJwt (session access_app_future ''not-a-token''))"
    using malformed_not_a_token by (simp add: session_def)
  show ?thesis
    using m1 p2 m2
      Check_malformed_token [of excerpt "session ''not-a-token'' refresh_past" now0]
      Check_malformed_token [of excerpt "session access_app_future ''not-a-token''" now0]
    by blast
qed

text \<open>
  C3 as stated fails: with a master access token and a malformed refresh token, \<open>Check\<close>
  stops at the scope and returns the error that matches \<open>ErrLoginUnauthorized\<close> and
  \<open>ErrMasterCredentials\<close>.
\<close>

theorem Check_malformed_refresh_counterexample:
  "malformed excerpt (RefreshJwt (session access_full_past ''not-a-token''))
   \<and> Check excerpt now0 (Some (session access_full_past ''not-a-token''))
       = Return (Some (wrapErrors ''unauthorized: master credentials used''
                         [Sentinel ErrLoginUnauthorized, Sentinel ErrMasterCredentials]))
   \<and> Is (wrapErrors ''unauthorized: master credentials used''
            [Sentinel ErrLoginUnauthorized, Sentinel ErrMasterCredentials]) ErrLoginUnauthorized
   \<and> Is (wrapErrors ''unauthorized: master credentials used''
            [Sentinel ErrLoginUnauthorized, Sentinel ErrMasterCredentials]) ErrMasterCredentials"
proof -
  have "decodes excerpt (AccessJwt (session access_full_past ''not-a-token'')) claims_full_past"
    using decodes_access_full_past by (simp add: session_def)
  from Check_wrong_scope [OF this scope_full_past, of now0] malformed_not_a_token
  show ?thesis by (simp add: session_def)
qed

text \<open>
  C4, as amended. For every session whose access token decodes, has the scope
  \<open>com.atproto.appPass\<close> and an expiration date, as \<open>GetExpirationTime\<close> returns it (the
  date the library computes from the number \<open>exp\<close>, which has no fraction of a second),
  that does not lie before the reading of the clock, and whose refresh token decodes with
  an expiration date of any value, \<open>Check\<close> returns nil: the date of the refresh token is
  not compared with the clock.
\<close>

theorem Check_accepts:
  assumes "decodes L (AccessJwt s) claims"
      and "claims ''scope'' = Some (JString ''com.atproto.appPass'')"
      and "GetExpirationTime L (MapClaims claims) = (Some current, None)"
      and "now \<le> Time current"
      and "decodes L (RefreshJwt s) rclaims"
      and "GetExpirationTime L (MapClaims rclaims) = (Some refresh, None)"
  shows "Check L now (Some s) = Return None"
proof -
  obtain token' where "ParseUnverified L (RefreshJwt s) Map.empty = Inr token'"
    and "Claims token' = MapClaims rclaims"
    using assms(5) by (auto simp: decodes_iff)
  then show ?thesis
    using Check_right_scope [OF assms(1,2), of now] assms(3,4,6) by simp
qed

text \<open>The refresh token of the witness expired in 2001.\<close>

theorem Check_accepts_witness:
  "decodes excerpt (AccessJwt (session access_app_future refresh_past)) claims_app_future
   \<and> claims_app_future ''scope'' = Some (JString ''com.atproto.appPass'')
   \<and> GetExpirationTime excerpt (MapClaims claims_app_future)
        = (Some (NumericDate 2000000000000000000), None)
   \<and> now0 \<le> Time (NumericDate 2000000000000000000)
   \<and> decodes excerpt (RefreshJwt (session access_app_future refresh_past)) claims_refresh_past
   \<and> GetExpirationTime excerpt (MapClaims claims_refresh_past)
        = (Some (NumericDate 1000000000000000000), None)
   \<and> Time (NumericDate 1000000000000000000) < now0
   \<and> Check excerpt now0 (Some (session access_app_future refresh_past)) = Return None"
proof -
  have d: "decodes excerpt (AccessJwt (session access_app_future refresh_past)) claims_app_future"
    using decodes_access_app_future by (simp add: session_def)
  have t: "now0 \<le> Time (NumericDate 2000000000000000000)"
    by (simp add: now0_def)
  have r: "decodes excerpt (RefreshJwt (session access_app_future refresh_past)) claims_refresh_past"
    using decodes_refresh_past by (simp add: session_def)
  have p: "Time (NumericDate 1000000000000000000) < now0"
    by (simp add: now0_def)
  show ?thesis
    using d scope_app_future GetExpirationTime_app_future t r GetExpirationTime_refresh_past p
      Check_accepts [OF d scope_app_future GetExpirationTime_app_future t r
        GetExpirationTime_refresh_past]
    by blast
qed

text \<open>
  C4 as stated fails. The first access token decodes, has the scope, and expires half a
  second after 2033-05-18 03:33:20 UTC; at two tenths of a second after that instant the
  expiration is in the future, but its date is the full second, which lies before the
  clock, and \<open>Check\<close> returns the error that matches \<open>ErrSessionExpired\<close>. The payload of
  the second access token has the scope and an expiration in 2033, under a header that
  names no registered signing method: \<open>Check\<close> returns the parser's error.
\<close>

theorem Check_accepts_counterexample:
  "decodes excerpt (AccessJwt (session access_app_fraction refresh_past)) claims_app_fraction
   \<and> claims_app_fraction ''scope'' = Some (JString ''com.atproto.appPass'')
   \<and> claims_app_fraction ''exp'' = Some (JFloat64 2000000000.5)
   \<and> real_of_int now_later < 2000000000.5 * 1000000000
   \<and> decodes excerpt (RefreshJwt (session access_app_fraction refresh_past)) claims_refresh_past
   \<and> GetExpirationTime excerpt (MapClaims claims_refresh_past)
        = (Some (NumericDate 1000000000000000000), None)
   \<and> Check excerpt now_later (Some (session access_app_fraction refresh_past))
        = Return (Some (wrapError
            ''session expired: refresh token was valid until 2033-05-18 03:33:20 +0000 UTC''
            (Sentinel ErrSessionExpired)))
   \<and> payload_claims excerpt (AccessJwt (session access_hs999_future refresh_past))
        = Some claims_app_future
   \<and> claims_app_future ''scope'' = Some (JString ''com.atproto.appPass'')
   \<and> GetExpirationTime excerpt (MapClaims claims_app_future)
        = (Some (NumericDate 2000000000000000000), None)
   \<and> now0 \<le> Time (NumericDate 2000000000000000000)
   \<and> Check excerpt now0 (Some (session access_hs999_future refresh_past))
        = Return (Some (wrapError ''token is unverifiable: signing method (alg) is unavailable''
                          (Sentinel ErrTokenUnverifiable)))"
proof -
  have d: "decodes excerpt (AccessJwt (session access_app_fraction refresh_past)) claims_app_fraction"
    using decodes_access_app_fraction by (simp add: session_def)
  have f: "real_of_int now_later < 2000000000.5 * 1000000000"
    by (simp add: now_later_def)
  have r: "decodes excerpt (RefreshJwt (session access_app_fraction refresh_past)) claims_refresh_past"
    using decodes_refresh_past by (simp add: session_def)
  have c: "Check excerpt now_later (Some (session access_app_fraction refresh_past))
        = Return (Some (wrapError
            ''session expired: refresh token was valid until 2033-05-18 03:33:20 +0000 UTC''
            (Sentinel ErrSessionExpired)))"
    using Check_right_scope [OF d scope_app_fraction, of now_later] GetExpirationTime_app_fraction
    by (simp add: now_later_def excerpt_def excerpt_Time_String_def)
  have p: "payload_claims excerpt (AccessJwt (session access_hs999_future refresh_past))
             = Some claims_app_future"
    using payload_claims_hs999_future by (simp add: session_def)
  have t: "now0 \<le> Time (NumericDate 2000000000000000000)"
    by (simp add: now0_def)
  have "ParseUnverified excerpt (AccessJwt (session access_hs999_future refresh_past)) Map.empty
          = Inl (wrapError ''token is unverifiable: signing method (alg) is unavailable''
                   (Sentinel ErrTokenUnverifiable))"
    using ParseUnverified_hs999_future by (simp add: session_def)
  then have k: "Check excerpt now0 (Some (session access_hs999_future refresh_past))
        = Return (Some (wrapError ''token is unverifiable: signing method (alg) is unavailable''
                          (Sentinel ErrTokenUnverifiable)))"
    by (rule Check_access_error)
  show ?thesis
    by (intro conjI d scope_app_fraction exp_app_fraction f r GetExpirationTime_refresh_past c p
          scope_app_future GetExpirationTime_app_future t k)
qed

text \<open>
  C5. \<open>Check\<close> stops at the first failing check, in the order: decoding of the access
  token, scope, expiration of the access token, decoding of the refresh token, reading of
  the refresh token's expiration. An error of the parser on the access token is returned
  as it is; a wrong scope gives the error that matches \<open>ErrMasterCredentials\<close> and not
  \<open>ErrSessionExpired\<close>, whatever the expiration is; with the right scope, an error of
  \<open>GetExpirationTime\<close> is returned as it is, and an expired date gives the error that
  matches \<open>ErrSessionExpired\<close>; once the access token has passed, an error of the parser
  on the refresh token, and then an error of \<open>GetExpirationTime\<close> on it, is returned as
  it is. When the access token does not pass, the result does not depend on the refresh
  token.
\<close>

theorem Check_stops_at_first_failure:
  "(ParseUnverified L (AccessJwt s) Map.empty = Inl err
      \<longrightarrow> Check L now (Some s) = Return (Some err))
   \<and> (decodes L (AccessJwt s) claims
       \<and> claims ''scope'' \<noteq> Some (JString ''com.atproto.appPass'')
      \<longrightarrow> (\<exists>e. Check L now (Some s) = Return (Some e)
             \<and> Is e ErrMasterCredentials \<and> \<not> Is e ErrSessionExpired))
   \<and> (decodes L (AccessJwt s) claims
       \<and> claims ''scope'' = Some (JString ''com.atproto.appPass'')
       \<and> GetExpirationTime L (MapClaims claims) = (d, Some err)
      \<longrightarrow> Check L now (Some s) = Return (Some err))
   \<and> (decodes L (AccessJwt s) claims
       \<and> claims ''scope'' = Some (JString ''com.atproto.appPass'')
       \<and> GetExpirationTime L (MapClaims claims) = (Some current, None)
       \<and> Time current < now
      \<longrightarrow> (\<exists>e. Check L now (Some s) = Return (Some e) \<and> Is e ErrSessionExpired))
   \<and> (access_passes L now (AccessJwt s)
       \<and> ParseUnverified L (RefreshJwt s) Map.empty = Inl err
      \<longrightarrow> Check L now (Some s) = Return (Some err))
   \<and> (access_passes L now (AccessJwt s)
       \<and> decodes L (RefreshJwt s) rclaims
       \<and> GetExpirationTime L (MapClaims rclaims) = (d, Some err)
      \<longrightarrow> Check L now (Some s) = Return (Some err))
   \<and> (\<not> access_passes L now (AccessJwt s)
      \<longrightarrow> Check L now (Some (s\<lparr>RefreshJwt := r\<rparr>)) = Check L now (Some s))"
proof (intro conjI impI; (elim conjE)?)
  assume "ParseUnverified L (AccessJwt s) Map.empty = Inl err"
  then show "Check L now (Some s) = Return (Some err)"
    by (rule Check_access_error)
next
  assume "decodes L (AccessJwt s) claims"
    and "claims ''scope'' \<noteq> Some (JString ''com.atproto.appPass'')"
  from Check_wrong_scope [OF this, of now]
  show "\<exists>e. Check L now (Some s) = Return (Some e)
          \<and> Is e ErrMasterCredentials \<and> \<not> Is e ErrSessionExpired"
    by simp
next
  assume "decodes L (AccessJwt s) claims"
    and "claims ''scope'' = Some (JString ''com.atproto.appPass'')"
    and ex: "GetExpirationTime L (MapClaims claims) = (d, Some err)"
  from Check_right_scope [OF this(1,2), of now] ex
  show "Check L now (Some s) = Return (Some err)"
    by (cases d) simp_all
next
  assume "decodes L (AccessJwt s) claims"
    and "claims ''scope'' = Some (JString ''com.atproto.appPass'')"
    and ex: "GetExpirationTime L (MapClaims claims) = (Some current, None)"
    and lt: "Time current < now"
  from Check_right_scope [OF this(1,2), of now] ex lt
  show "\<exists>e. Check L now (Some s) = Return (Some e) \<and> Is e ErrSessionExpired"
    by simp
next
  assume "access_passes L now (AccessJwt s)"
    and "ParseUnverified L (RefreshJwt s) Map.empty = Inl err"
  then show "Check L now (Some s) = Return (Some err)"
    by (simp add: Check_access_passes)
next
  assume p: "access_passes L now (AccessJwt s)"
    and r: "decodes L (RefreshJwt s) rclaims"
    and ex: "GetExpirationTime L (MapClaims rclaims) = (d, Some err)"
  from r obtain token' where "ParseUnverified L (RefreshJwt s) Map.empty = Inr token'"
    and "Claims token' = MapClaims rclaims"
    by (auto simp: decodes_iff)
  with ex show "Check L now (Some s) = Return (Some err)"
    by (simp add: Check_access_passes [OF p])
next
  assume "\<not> access_passes L now (AccessJwt s)"
  then show "Check L now (Some (s\<lparr>RefreshJwt := r\<rparr>)) = Check L now (Some s)"
    by (rule Check_not_access_passes)
qed

text \<open>
  One session for each stage; the second one has a master access token that is expired as
  well, and the last one shows its result unchanged by a malformed refresh token.
\<close>

theorem Check_stops_at_first_failure_witness:
  "ParseUnverified excerpt (AccessJwt (session ''not-a-token'' refresh_past)) Map.empty
     = Inl (wrapError ''token is malformed: token contains an invalid number of segments''
              (Sentinel ErrTokenMalformed))
   \<and> Check excerpt now0 (Some (session ''not-a-token'' refresh_past))
     = Return (Some (wrapError ''token is malformed: token contains an invalid number of segments''
                       (Sentinel ErrTokenMalformed)))
   \<and> decodes excerpt (AccessJwt (session access_full_past refresh_past)) claims_full_past
   \<and> claims_full_past ''scope'' \<noteq> Some (JString ''com.atproto.appPass'')
   \<and> expired excerpt now0 (AccessJwt (session access_full_past refresh_past))
   \<and> (\<exists>e. Check excerpt now0 (Some (session access_full_past refresh_past)) = Return (Some e)
         \<and> Is e ErrMasterCredentials \<and> \<not> Is e ErrSessionExpired)
   \<and> decodes excerpt (AccessJwt (session access_app_badexp refresh_past)) claims_app_badexp
   \<and> claims_app_badexp ''scope'' = Some (JString ''com.atproto.appPass'')
   \<and> GetExpirationTime excerpt (MapClaims claims_app_badexp)
     = (None, Some (wrapError ''invalid type for claim: exp is invalid'' (Sentinel ErrInvalidType)))
   \<and> Check excerpt now0 (Some (session access_app_badexp refresh_past))
     = Return (Some (wrapError ''invalid type for claim: exp is invalid'' (Sentinel ErrInvalidType)))
   \<and> decodes excerpt (AccessJwt (session access_app_past refresh_past)) claims_app_past
   \<and> claims_app_past ''scope'' = Some (JString ''com.atproto.appPass'')
   \<and> GetExpirationTime excerpt (MapClaims claims_app_past)
     = (Some (NumericDate 1000000000000000000), None)
   \<and> Time (NumericDate 1000000000000000000) < now0
   \<and> (\<exists>e. Check excerpt now0 (Some (session access_app_past refresh_past)) = Return (Some e)
         \<and> Is e ErrSessionExpired)
   \<and> access_passes excerpt now0 (AccessJwt (session access_app_future ''not-a-token''))
   \<and> ParseUnverified excerpt (RefreshJwt (session access_app_future ''not-a-token'')) Map.empty
     = Inl (wrapError ''token is malformed: token contains an invalid number of segments''
              (Sentinel ErrTokenMalformed))
   \<and> Check excerpt now0 (Some (session access_app_future ''not-a-token''))
     = Return (Some (wrapError ''token is malformed: token contains an invalid number of segments''
                       (Sentinel ErrTokenMalformed)))
   \<and> access_passes excerpt now0 (AccessJwt (session access_app_future refresh_badexp))
   \<and> decodes excerpt (RefreshJwt (session access_app_future refresh_badexp)) claims_refresh_badexp
   \<and> GetExpirationTime excerpt (MapClaims claims_refresh_badexp)
     = (None, Some (wrapError ''invalid type for claim: exp is invalid'' (Sentinel ErrInvalidType)))
   \<and> Check excerpt now0 (Some (session access_app_future refresh_badexp))
     = Return (Some (wrapError ''invalid type for claim: exp is invalid'' (Sentinel ErrInvalidType)))
   \<and> \<not> access_passes excerpt now0 (AccessJwt (session access_full_past refresh_past))
   \<and> Check excerpt now0 (Some ((session access_full_past refresh_past)\<lparr>RefreshJwt := ''not-a-token''\<rparr>))
     = Check excerpt now0 (Some (session access_full_past refresh_past))"
  (is "?a1 \<and> ?c1 \<and> ?a2 \<and> ?b2 \<and> ?x2 \<and> ?c2 \<and> ?a3 \<and> ?b3 \<and> ?g3 \<and> ?c3
       \<and> ?a4 \<and> ?b4 \<and> ?g4 \<and> ?t4 \<and> ?c4 \<and> ?a5 \<and> ?b5 \<and> ?c5 \<and> ?a6 \<and> ?b6 \<and> ?g6 \<and> ?c6
       \<and> ?a7 \<and> ?c7")
proof -
  have a1: ?a1 using ParseUnverified_not_a_token by (simp add: session_def)
  have a2: ?a2 using decodes_access_full_past by (simp add: session_def)
  have x2: ?x2 using expired_full_past by (simp add: session_def)
  have a3: ?a3 using decodes_access_app_badexp by (simp add: session_def)
  have a4: ?a4 using decodes_access_app_past by (simp add: session_def)
  have t4: ?t4 by (simp add: now0_def)
  have a5: ?a5 using access_passes_app_future by (simp add: session_def)
  have b5: ?b5 using ParseUnverified_not_a_token by (simp add: session_def)
  have a6: ?a6 using access_passes_app_future by (simp add: session_def)
  have b6: ?b6 using decodes_refresh_badexp by (simp add: session_def)
  have a7: ?a7 using not_access_passes_full_past by (simp add: session_def)
  note facts = a1 a2 scope_full_past x2 a3 scope_app_badexp GetExpirationTime_app_badexp a4
    scope_app_past GetExpirationTime_app_past t4 a5 b5 a6 b6 GetExpirationTime_refresh_badexp a7
  have c1: ?c1
    using Check_stops_at_first_failure [of excerpt "session ''not-a-token'' refresh_past" _ now0] a1
    by blast
  have c2: ?c2
    using Check_stops_at_first_failure [of excerpt "session access_full_past refresh_past" _ now0
        claims_full_past] a2 scope_full_past
    by blast
  have c3: ?c3
    using Check_stops_at_first_failure [of excerpt "session access_app_badexp refresh_past" _ now0
        claims_app_badexp None] a3 scope_app_badexp GetExpirationTime_app_badexp
    by blast
  have c4: ?c4
    using Check_stops_at_first_failure [of excerpt "session access_app_past refresh_past" _ now0
        claims_app_past _ "NumericDate 1000000000000000000"] a4 scope_app_past
      GetExpirationTime_app_past t4
    by blast
  have c5: ?c5
    using Check_stops_at_first_failure [of excerpt "session access_app_future ''not-a-token''" _ now0]
      a5 b5
    by blast
  have c6: ?c6
    using Check_stops_at_first_failure [of excerpt "session access_app_future refresh_badexp" _ now0
        _ None _ claims_refresh_badexp] a6 b6 GetExpirationTime_refresh_badexp
    by blast
  have c7: ?c7
    using Check_stops_at_first_failure [of excerpt "session access_full_past refresh_past" _ now0] a7
    by blast
  show ?thesis
    by (intro conjI facts c1 c2 c3 c4 c5 c6 c7)
qed

text \<open>
  C6. \<open>Check\<close> is deterministic: two calls on sessions with the same token strings, at
  the same reading of the clock or at two readings between which the expiry status of the
  access token does not change, return the same result.
\<close>

theorem Check_deterministic:
  assumes "AccessJwt s1 = AccessJwt s2"
      and "RefreshJwt s1 = RefreshJwt s2"
      and "expired L now1 (AccessJwt s1) = expired L now2 (AccessJwt s2)"
  shows "Check L now1 (Some s1) = Check L now2 (Some s2)"
proof (cases "ParseUnverified L (AccessJwt s1) Map.empty")
  case (Inl err)
  then show ?thesis
    using assms(1) by (simp add: Check_def)
next
  case (Inr token)
  show ?thesis
  proof (cases "Claims token")
    case (RegisteredClaims x)
    with Inr show ?thesis
      using assms(1) by (simp add: Check_def)
  next
    case (MapClaims claims)
    with Inr have e: "\<And>now. expired L now (AccessJwt s1) =
        (case parseNumericDate L claims ''exp'' of
           (Some current, None) \<Rightarrow> Time current < now | _ \<Rightarrow> False)"
      by (simp add: expired_def)
    from assms(3) have "expired L now1 (AccessJwt s1) = expired L now2 (AccessJwt s1)"
      using assms(1) by simp
    with e have "(case parseNumericDate L claims ''exp'' of
           (Some current, None) \<Rightarrow> Time current < now1 | _ \<Rightarrow> False)
        = (case parseNumericDate L claims ''exp'' of
           (Some current, None) \<Rightarrow> Time current < now2 | _ \<Rightarrow> False)"
      by simp
    with Inr MapClaims show ?thesis
      using assms(1,2)
      by (auto simp: Check_def Until_negative split: prod.splits option.splits)
  qed
qed

text \<open>Two calls a minute apart, on a session that is accepted.\<close>

theorem Check_deterministic_witness:
  "AccessJwt (session access_app_future refresh_past)
     = AccessJwt (session access_app_future refresh_past)
   \<and> RefreshJwt (session access_app_future refresh_past)
     = RefreshJwt (session access_app_future refresh_past)
   \<and> expired excerpt now0 (AccessJwt (session access_app_future refresh_past))
     = expired excerpt (now0 + 60000000000) (AccessJwt (session access_app_future refresh_past))
   \<and> Check excerpt now0 (Some (session access_app_future refresh_past))
     = Check excerpt (now0 + 60000000000) (Some (session access_app_future refresh_past))"
proof -
  have e: "expired excerpt now0 (AccessJwt (session access_app_future refresh_past))
     = expired excerpt (now0 + 60000000000) (AccessJwt (session access_app_future refresh_past))"
    using expired_app_future by (simp add: session_def)
  show ?thesis
    using e
      Check_deterministic [of "session access_app_future refresh_past"
        "session access_app_future refresh_past" excerpt now0 "now0 + 60000000000"]
    by simp
qed

text \<open>
  C7, as amended. For every session whose access token passes its checks and whose refresh
  token decodes: when the claim \<open>exp\<close> of the refresh token is present and is not a
  number, \<open>Check\<close> returns a non-nil error (it wraps \<open>ErrInvalidType\<close>); when the claim
  is absent, \<open>GetExpirationTime\<close> reports no error and \<open>Check\<close> returns nil. The presence
  of the claim is not checked.
\<close>

theorem Check_refresh_expiration:
  assumes "access_passes L now (AccessJwt s)"
      and "decodes L (RefreshJwt s) rclaims"
  shows "(rclaims ''exp'' = Some v \<and> \<not> isFloat64 v
            \<longrightarrow> (\<exists>err. Check L now (Some s) = Return (Some err) \<and> Is err ErrInvalidType))
       \<and> (rclaims ''exp'' = None \<longrightarrow> Check L now (Some s) = Return None)"
proof (intro conjI impI)
  assume "rclaims ''exp'' = Some v \<and> \<not> isFloat64 v"
  then have "parseNumericDate L rclaims ''exp''
               = (None, Some (newError ''exp is invalid'' (Sentinel ErrInvalidType) []))"
    by (cases v) (simp_all add: parseNumericDate_def)
  then show "\<exists>err. Check L now (Some s) = Return (Some err) \<and> Is err ErrInvalidType"
    by (simp add: Check_refresh_decodes [OF assms] Is_newError)
next
  assume "rclaims ''exp'' = None"
  then have "parseNumericDate L rclaims ''exp'' = (None, None)"
    by (simp add: parseNumericDate_nil)
  then show "Check L now (Some s) = Return None"
    by (simp add: Check_refresh_decodes [OF assms])
qed

theorem Check_refresh_expiration_witness:
  "access_passes excerpt now0 (AccessJwt (session access_app_future refresh_badexp))
   \<and> decodes excerpt (RefreshJwt (session access_app_future refresh_badexp)) claims_refresh_badexp
   \<and> claims_refresh_badexp ''exp'' = Some (JString ''soon'')
   \<and> \<not> isFloat64 (JString ''soon'')
   \<and> (\<exists>err. Check excerpt now0 (Some (session access_app_future refresh_badexp)) = Return (Some err)
         \<and> Is err ErrInvalidType)
   \<and> access_passes excerpt now0 (AccessJwt (session access_app_future refresh_noexp))
   \<and> decodes excerpt (RefreshJwt (session access_app_future refresh_noexp)) claims_refresh_noexp
   \<and> claims_refresh_noexp ''exp'' = None
   \<and> Check excerpt now0 (Some (session access_app_future refresh_noexp)) = Return None"
proof -
  have p1: "access_passes excerpt now0 (AccessJwt (session access_app_future refresh_badexp))"
    using access_passes_app_future by (simp add: session_def)
  have d1: "decodes excerpt (RefreshJwt (session access_app_future refresh_badexp)) claims_refresh_badexp"
    using decodes_refresh_badexp by (simp add: session_def)
  have f: "\<not> isFloat64 (JString ''soon'')"
    by simp
  have p2: "access_passes excerpt now0 (AccessJwt (session access_app_future refresh_noexp))"
    using access_passes_app_future by (simp add: session_def)
  have d2: "decodes excerpt (RefreshJwt (session access_app_future refresh_noexp)) claims_refresh_noexp"
    using decodes_refresh_noexp by (simp add: session_def)
  show ?thesis
    using p1 d1 exp_refresh_badexp f p2 d2 exp_refresh_noexp
      Check_refresh_expiration [OF p1 d1, of "JString ''soon''"]
      Check_refresh_expiration [OF p2 d2]
    by blast
qed

text \<open>
  C7 as stated fails: the refresh token below decodes and has no claim \<open>exp\<close>, the access
  token passes its checks, and \<open>Check\<close> returns nil.
\<close>

theorem Check_refresh_without_expiration_counterexample:
  "access_passes excerpt now0 (AccessJwt (session access_app_future refresh_noexp))
   \<and> decodes excerpt (RefreshJwt (session access_app_future refresh_noexp)) claims_refresh_noexp
   \<and> claims_refresh_noexp ''exp'' = None
   \<and> GetExpirationTime excerpt (MapClaims claims_refresh_noexp) = (None, None)
   \<and> Check excerpt now0 (Some (session access_app_future refresh_noexp)) = Return None"
proof -
  have p: "access_passes excerpt now0 (AccessJwt (session access_app_future refresh_noexp))"
    using access_passes_app_future by (simp add: session_def)
  have d: "decodes excerpt (RefreshJwt (session access_app_future refresh_noexp)) claims_refresh_noexp"
    using decodes_refresh_noexp by (simp add: session_def)
  have "Check excerpt now0 (Some (session access_app_future refresh_noexp)) = Return None"
    using Check_refresh_decodes [OF p d] GetExpirationTime_refresh_noexp by simp
  with p d exp_refresh_noexp GetExpirationTime_refresh_noexp show ?thesis
    by blast
qed

text \<open>
  C8. \<open>Check\<close> does not change its input: whatever the call returns, and also when it
  panics, the memory after the call is the memory before it, so the token strings and all
  other fields of the session are unchanged; the call has no effect but its result, which
  is that of \<open>Check\<close> on the session read through the pointer.
\<close>

theorem Check_in_frame:
  "snd (Check_in L now sess mem) = mem
   \<and> fst (Check_in L now sess mem) = Check L now (fst (deref sess mem))"
proof (cases "fst (deref sess mem)")
  case None
  then have "deref sess mem = (None, mem)"
    by (simp add: deref_def)
  with None show ?thesis
    by (simp add: Check_in_def Check_def)
next
  case (Some s)
  then have d: "deref sess mem = (Some s, mem)"
    by (simp add: deref_def)
  show ?thesis
  proof (cases "ParseUnverified L (AccessJwt s) Map.empty")
    case (Inl err)
    with d show ?thesis
      by (simp add: Check_in_def Check_def)
  next
    case (Inr token)
    show ?thesis
    proof (cases "Claims token")
      case (RegisteredClaims x)
      with d Inr show ?thesis
        by (simp add: Check_in_def Check_def)
    next
      case (MapClaims claims)
      obtain current err where g: "parseNumericDate L claims ''exp'' = (current, err)"
        by fastforce
      show ?thesis
      proof (cases "ParseUnverified L (RefreshJwt s) Map.empty")
        case (Inl err')
        with d Inr MapClaims g show ?thesis
          by (cases current; cases err) (simp_all add: Check_in_def Check_def)
      next
        case r: (Inr token')
        obtain refresh err' where "GetExpirationTime L (Claims token') = (refresh, err')"
          by fastforce
        with d Inr MapClaims g r show ?thesis
          by (cases current; cases err; cases err') (simp_all add: Check_in_def Check_def)
      qed
    qed
  qed
qed

text \<open>
  C9. The result of \<open>Check\<close> depends only on the two token strings and the reading of the
  clock: two non-nil sessions that agree on \<open>AccessJwt\<close> and \<open>RefreshJwt\<close> get the same
  result, whatever their other fields are (the two records may even be of different
  extensions).
\<close>

theorem Check_reads_tokens_only:
  assumes "AccessJwt s1 = AccessJwt s2"
      and "RefreshJwt s1 = RefreshJwt s2"
  shows "Check L now (Some s1) = Check L now (Some s2)"
  unfolding Check_def option.case assms ..

theorem Check_reads_tokens_only_witness:
  "AccessJwt (session access_app_future refresh_past)
     = AccessJwt \<lparr>AccessJwt = access_app_future, Did = ''did:plc:bob'',
                  Email = Some ''bob@example.com'', Handle = ''bob.test'',
                  RefreshJwt = refresh_past\<rparr>
   \<and> RefreshJwt (session access_app_future refresh_past)
     = RefreshJwt \<lparr>AccessJwt = access_app_future, Did = ''did:plc:bob'',
                   Email = Some ''bob@example.com'', Handle = ''bob.test'',
                   RefreshJwt = refresh_past\<rparr>
   \<and> session access_app_future refresh_past
     \<noteq> \<lparr>AccessJwt = access_app_future, Did = ''did:plc:bob'',
         Email = Some ''bob@example.com'', Handle = ''bob.test'',
         RefreshJwt = refresh_past\<rparr>
   \<and> Check excerpt now0 (Some (session access_app_future refresh_past))
     = Check excerpt now0
         (Some \<lparr>AccessJwt = access_app_future, Did = ''did:plc:bob'',
                Email = Some ''bob@example.com'', Handle = ''bob.test'',
                RefreshJwt = refresh_past\<rparr>)"
  using Check_reads_tokens_only [of "session access_app_future refresh_past"
      "\<lparr>AccessJwt = access_app_future, Did = ''did:plc:bob'',
        Email = Some ''bob@example.com'', Handle = ''bob.test'',
        RefreshJwt = refresh_past\<rparr>" excerpt now0]
  by (simp add: session_def)

text \<open>
  C10 fails on the code. The access token below decodes, has the scope
  \<open>com.atproto.appPass\<close> and no claim \<open>exp\<close>: \<open>GetExpirationTime\<close> returns a nil date
  with a nil error, and reading \<open>current.Time\<close> panics.
\<close>

theorem Check_panics_without_expiration:
  "Check excerpt now0 (Some (session access_app_noexp refresh_past)) = Panic NilPointerDereference"
proof -
  have "decodes excerpt (AccessJwt (session access_app_noexp refresh_past)) claims_app_noexp"
    using decodes_access_app_noexp by (simp add: session_def)
  with scope_app_noexp exp_app_noexp show ?thesis
    unfolding Check_panics_iff by blast
qed

end
